theory Spec2Isabelle
  imports Main "HOL-Library.AList"
begin

section \<open>JavaScript values\<close>

text \<open>
  The ticket service (\<^verbatim>\<open>services/tickets.js\<close>) is JavaScript over a Redis store. Redis
  keeps strings only: whatever \<^verbatim>\<open>cache.set\<close> and \<^verbatim>\<open>cache.hSet\<close> write comes back from
  \<^verbatim>\<open>cache.get\<close> and \<^verbatim>\<open>cache.hGetAll\<close> as a string, and the service applies \<^verbatim>\<open>+\<close>,
  \<^verbatim>\<open>>=\<close>, \<^verbatim>\<open>!==\<close> and truthiness tests to these values without converting them. The
  model therefore keeps the dynamic type of every value.

  \<open>JNum\<close> holds integers only (counters and capacities); \<open>JDate t\<close> stands for
  \<^verbatim>\<open>new Date(t)\<close>; \<open>JObj\<close> is an object as the ordered list of its own properties.
\<close>

datatype jsval =
    JUndefined
  | JNull
  | JNaN
  | JNum int
  | JStr string
  | JDate jsval
  | JObj "(string \<times> jsval) list"

text \<open>Decimal digits, for the text of a number and for reading a number from a string.\<close>

definition digit_char :: "nat \<Rightarrow> char" where
  "digit_char d =
     (if d = 0 then CHR ''0'' else if d = 1 then CHR ''1'' else if d = 2 then CHR ''2''
      else if d = 3 then CHR ''3'' else if d = 4 then CHR ''4'' else if d = 5 then CHR ''5''
      else if d = 6 then CHR ''6'' else if d = 7 then CHR ''7'' else if d = 8 then CHR ''8''
      else CHR ''9'')"

definition digit_table :: "(char \<times> nat) list" where
  "digit_table =
     [(CHR ''0'', 0), (CHR ''1'', 1), (CHR ''2'', 2), (CHR ''3'', 3), (CHR ''4'', 4),
      (CHR ''5'', 5), (CHR ''6'', 6), (CHR ''7'', 7), (CHR ''8'', 8), (CHR ''9'', 9)]"

definition digit_val :: "char \<Rightarrow> nat option" where
  "digit_val c = map_of digit_table c"

fun nat_digits :: "nat \<Rightarrow> string" where
  "nat_digits n =
     (if n < 10 then [digit_char n] else nat_digits (n div 10) @ [digit_char (n mod 10)])"

declare nat_digits.simps [simp del]

fun parse_digits :: "nat \<Rightarrow> string \<Rightarrow> nat option" where
  "parse_digits acc [] = Some acc"
| "parse_digits acc (c # cs) =
     (case digit_val c of None \<Rightarrow> None | Some d \<Rightarrow> parse_digits (10 * acc + d) cs)"

text \<open>
  \<^verbatim>\<open>Number(s)\<close> for a string: the empty string is 0, a run of decimal digits with an
  optional sign is that integer. Every other string reads as NaN (\<open>None\<close>) here; the
  further numeric forms of JavaScript (blanks around the digits, fractions, exponents,
  hexadecimal, Infinity) are outside this model, and no statement below depends on them.
\<close>

definition str_to_number :: "string \<Rightarrow> int option" where
  "str_to_number s =
     (if s = [] then Some 0
      else if hd s = CHR ''-'' then
        (if tl s = [] then None else map_option (\<lambda>n. - int n) (parse_digits 0 (tl s)))
      else if hd s = CHR ''+'' then
        (if tl s = [] then None else map_option int (parse_digits 0 (tl s)))
      else map_option int (parse_digits 0 s))"

text \<open>\<^verbatim>\<open>String(v)\<close>, as template literals, \<^verbatim>\<open>+\<close> on a string and the client's writes of
  numbers apply it. Numbers are written in full (JavaScript switches to exponent
  notation from \<^verbatim>\<open>1e21\<close> on). The text of a Date depends on the time zone of the host and
  is written \<^verbatim>\<open>Date(...)\<close> here; it is never used below, since the client refuses a Date
  and no template literal or sum of the service has a Date operand.\<close>

fun to_string :: "jsval \<Rightarrow> string" where
  "to_string JUndefined = ''undefined''"
| "to_string JNull = ''null''"
| "to_string JNaN = ''NaN''"
| "to_string (JNum i) = (if i < 0 then CHR ''-'' # nat_digits (nat (- i)) else nat_digits (nat i))"
| "to_string (JStr s) = s"
| "to_string (JDate t) = ''Date('' @ to_string t @ '')''"
| "to_string (JObj fs) = ''[object Object]''"

text \<open>\<^verbatim>\<open>Number(v)\<close>; \<open>None\<close> is NaN. Objects and dates are never operands of arithmetic
  or comparison in the service; they read as NaN here.\<close>

fun to_number :: "jsval \<Rightarrow> int option" where
  "to_number JUndefined = None"
| "to_number JNull = Some 0"
| "to_number JNaN = None"
| "to_number (JNum i) = Some i"
| "to_number (JStr s) = str_to_number s"
| "to_number (JDate t) = None"
| "to_number (JObj fs) = None"

fun truthy :: "jsval \<Rightarrow> bool" where
  "truthy JUndefined = False"
| "truthy JNull = False"
| "truthy JNaN = False"
| "truthy (JNum i) = (i \<noteq> 0)"
| "truthy (JStr s) = (s \<noteq> [])"
| "truthy (JDate t) = True"
| "truthy (JObj fs) = True"

definition falsy :: "jsval \<Rightarrow> bool" where
  "falsy v = (if truthy v then False else True)"

text \<open>\<^verbatim>\<open>a || b\<close>\<close>

definition js_or :: "jsval \<Rightarrow> jsval \<Rightarrow> jsval" where
  "js_or a b = (if truthy a then a else b)"

text \<open>\<^verbatim>\<open>a === b\<close>: primitives by type and value, NaN equal to nothing, objects by
  identity (two values built apart are never the same object).\<close>

fun strict_eq :: "jsval \<Rightarrow> jsval \<Rightarrow> bool" where
  "strict_eq JUndefined JUndefined = True"
| "strict_eq JNull JNull = True"
| "strict_eq (JNum a) (JNum b) = (a = b)"
| "strict_eq (JStr a) (JStr b) = (a = b)"
| "strict_eq _ _ = False"

text \<open>Strings compare by code units, left to right; a proper prefix is smaller.\<close>

fun str_lt :: "string \<Rightarrow> string \<Rightarrow> bool" where
  "str_lt [] [] = False"
| "str_lt [] (y # ys) = True"
| "str_lt (x # xs) [] = False"
| "str_lt (x # xs) (y # ys) =
     (if x = y then str_lt xs ys else (of_char x :: nat) < of_char y)"

text \<open>\<^verbatim>\<open>a >= b\<close>: two strings compare as strings; otherwise both operands are converted
  to numbers, and a NaN on either side makes the comparison false.\<close>

definition js_ge :: "jsval \<Rightarrow> jsval \<Rightarrow> bool" where
  "js_ge a b =
     (case (a, b) of
        (JStr x, JStr y) \<Rightarrow> (if str_lt x y then False else True)
      | _ \<Rightarrow> (case (to_number a, to_number b) of
                (Some m, Some n) \<Rightarrow> n \<le> m
              | _ \<Rightarrow> False))"

text \<open>\<^verbatim>\<open>a + b\<close>: when either operand is a string (or an object, whose primitive is a
  string) the result is the concatenation of the two texts; otherwise the numeric sum.\<close>

fun stringy :: "jsval \<Rightarrow> bool" where
  "stringy (JStr s) = True"
| "stringy (JDate t) = True"
| "stringy (JObj fs) = True"
| "stringy _ = False"

definition js_add :: "jsval \<Rightarrow> jsval \<Rightarrow> jsval" where
  "js_add a b =
     (if stringy a \<or> stringy b then JStr (to_string a @ to_string b)
      else (case (to_number a, to_number b) of
              (Some m, Some n) \<Rightarrow> JNum (m + n)
            | _ \<Rightarrow> JNaN))"

text \<open>Property access \<^verbatim>\<open>o.k\<close> (undefined when absent), assignment \<^verbatim>\<open>o.k = v\<close> (in
  place when present, appended otherwise) and the spread \<^verbatim>\<open>{...o, k1: v1, ...}\<close>. The
  values accessed in the service are the token's payload and the objects read from the
  store; a primitive value has no properties of its own here.\<close>

fun fields_of :: "jsval \<Rightarrow> (string \<times> jsval) list" where
  "fields_of (JObj fs) = fs"
| "fields_of _ = []"

definition get_field :: "jsval \<Rightarrow> string \<Rightarrow> jsval" where
  "get_field o' k = (case map_of (fields_of o') k of None \<Rightarrow> JUndefined | Some v \<Rightarrow> v)"

definition set_field :: "jsval \<Rightarrow> string \<Rightarrow> jsval \<Rightarrow> jsval" where
  "set_field o' k v = JObj (AList.update k v (fields_of o'))"

definition spread :: "jsval \<Rightarrow> (string \<times> jsval) list \<Rightarrow> jsval" where
  "spread o' kvs = JObj (foldl (\<lambda>fs (k, v). AList.update k v fs) (fields_of o') kvs)"

section \<open>The cache over Redis\<close>

text \<open>
  \<^verbatim>\<open>util/cache.js\<close> wraps a Redis client (\<^verbatim>\<open>redis ^4.7.0\<close>). The client is a library, so
  it is modelled from the contract the specification gives for the store (CacheStore:
  \<^verbatim>\<open>get\<close> returns an optional string, \<^verbatim>\<open>hGetAll\<close> a mapping from strings to strings or
  the empty mapping, \<^verbatim>\<open>set\<close>, \<^verbatim>\<open>hSet\<close> and \<^verbatim>\<open>del\<close> write) and from three rules of the
  client and the server:
  \<^item> an argument of a command is a string, or a number, which is sent as its text; any
    other value (undefined, null, a Date, an object) is refused with
    \<^verbatim>\<open>TypeError: Invalid argument type\<close> and the command is not sent;
  \<^item> the server refuses a command applied to a key that holds the other kind of value,
    and an HSET without fields;
  \<^item> the client sends its commands over one connection and the server executes and
    answers them in the order sent.

  The wrapper's \<^verbatim>\<open>get\<close> and \<^verbatim>\<open>hGetAll\<close> return the client's promise and \<^verbatim>\<open>hSet\<close> awaits it:
  a caller that awaits them resumes when the server has answered, hence after every
  command sent before has been executed, and a refusal reaches the caller. The wrapper's
  \<^verbatim>\<open>set\<close> and \<^verbatim>\<open>del\<close> neither await nor return the client's promise: the caller resumes at
  once, with the command only handed to the client, and a refusal never reaches it.

  The state therefore has two parts: \<open>server\<close>, the keys as the server holds them when
  the last awaited answer arrived, and \<open>queued\<close>, the commands handed to the client
  since then, which the server executes later, in this order. \<open>settled\<close> is the store
  once the queued commands have been executed, and \<open>answered\<close> the state in which an
  awaited answer arrives. Expiry of keys is not modelled (there is no clock; the
  \<open>ttl\<close> option is carried but has no effect), and neither is the loss of a queued
  command.
\<close>

datatype rval = RString string | RHash "(string \<times> string) list"

type_synonym redis = "string \<Rightarrow> rval option"

datatype command = Set string string | Del string

fun execute :: "command \<Rightarrow> redis \<Rightarrow> redis" where
  "execute (Set key v) s = s(key \<mapsto> RString v)"
| "execute (Del key) s = s(key := None)"

record client =
  server :: redis
  queued :: "command list"

definition settled :: "client \<Rightarrow> redis" where
  "settled w = foldl (\<lambda>s c. execute c s) (server w) (queued w)"

definition answered :: "client \<Rightarrow> client" where
  "answered w = \<lparr> server = settled w, queued = [] \<rparr>"

text \<open>A client with nothing in flight on a given store.\<close>

definition holding :: "redis \<Rightarrow> client" where
  "holding s = \<lparr> server = s, queued = [] \<rparr>"

text \<open>The values the client accepts as an argument: \<^verbatim>\<open>typeof\<close> string or number.\<close>

fun sendable :: "jsval \<Rightarrow> bool" where
  "sendable (JStr s) = True"
| "sendable (JNum i) = True"
| "sendable JNaN = True"
| "sendable _ = False"

text \<open>The errors \<^verbatim>\<open>verifyTicket\<close> throws, named after the rejection kinds of the
  specification; the source distinguishes them by message only. \<open>InvalidArgument\<close> is
  the client's TypeError, \<open>StoreFault\<close> a command the server refused.\<close>

datatype error =
    NoCurrentEvent            \<comment> \<open>\<^verbatim>\<open>No current event found\<close>\<close>
  | TokenExpired              \<comment> \<open>\<^verbatim>\<open>Token has expired\<close>\<close>
  | InvalidToken              \<comment> \<open>\<^verbatim>\<open>Invalid token\<close>\<close>
  | IssuerMismatch            \<comment> \<open>\<^verbatim>\<open>Ticket was not issued by ...\<close>\<close>
  | TicketExpired             \<comment> \<open>\<^verbatim>\<open>Ticket has expired\<close>\<close>
  | EventMismatch             \<comment> \<open>\<^verbatim>\<open>The event ID does not match the current event\<close>\<close>
  | Blacklisted               \<comment> \<open>\<^verbatim>\<open>Ticket has been blacklisted\<close>\<close>
  | Revoked                   \<comment> \<open>\<^verbatim>\<open>This ticket has been revoked\<close>\<close>
  | ConcurrentProcessing      \<comment> \<open>\<^verbatim>\<open>Ticket is being processed, please wait\<close>\<close>
  | EventFull                 \<comment> \<open>\<^verbatim>\<open>Event is at full capacity\<close>\<close>
  | AlreadyInside             \<comment> \<open>\<^verbatim>\<open>Ticket has already been used for entry. ...\<close>\<close>
  | MaxEntriesReached         \<comment> \<open>\<^verbatim>\<open>Ticket has reached the maximum number of allowed entries\<close>\<close>
  | TicketInvalidOrRevoked    \<comment> \<open>\<^verbatim>\<open>Ticket is invalid or has been revoked\<close>\<close>
  | InvalidArgument           \<comment> \<open>\<^verbatim>\<open>Invalid argument type\<close>\<close>
  | StoreFault

text \<open>An asynchronous function over the client: it throws (\<open>Inl\<close>) or returns
  (\<open>Inr\<close>), and leaves the client in the state its commands made.\<close>

type_synonym 'a prog = "client \<Rightarrow> (error + 'a) \<times> client"

definition return :: "'a \<Rightarrow> 'a prog" where
  "return x w = (Inr x, w)"

definition throw :: "error \<Rightarrow> 'a prog" where
  "throw e w = (Inl e, w)"

definition bind :: "'a prog \<Rightarrow> ('a \<Rightarrow> 'b prog) \<Rightarrow> 'b prog" where
  "bind m f w = (case m w of (Inl e, w') \<Rightarrow> (Inl e, w') | (Inr x, w') \<Rightarrow> f x w')"

text \<open>Modelled from the spec: the Redis client behind \<^verbatim>\<open>cache.get\<close> (GET), awaited by the
  caller.\<close>

definition cache_get :: "string \<Rightarrow> jsval prog" where
  "cache_get key w =
     (case settled w key of
        None \<Rightarrow> (Inr JNull, answered w)
      | Some (RString v) \<Rightarrow> (Inr (JStr v), answered w)
      | Some (RHash h) \<Rightarrow> (Inl StoreFault, answered w))"

text \<open>Modelled from the spec: the Redis client behind \<^verbatim>\<open>cache.set\<close> (SET). The wrapper
  calls \<^verbatim>\<open>this.client.set\<close> and drops its promise: the command is queued when the value
  is one the client accepts, nothing is sent otherwise, and the caller is told neither.\<close>

definition cache_set :: "string \<Rightarrow> jsval \<Rightarrow> nat option \<Rightarrow> unit prog" where
  "cache_set key v ttl w =
     (if sendable v then (Inr (), w\<lparr> queued := queued w @ [Set key (to_string v)] \<rparr>)
      else (Inr (), w))"

text \<open>Modelled from the spec: the Redis client behind \<^verbatim>\<open>cache.hGetAll\<close> (HGETALL),
  awaited by the caller; a key that does not exist reads as the empty object.\<close>

definition cache_hGetAll :: "string \<Rightarrow> jsval prog" where
  "cache_hGetAll key w =
     (case settled w key of
        None \<Rightarrow> (Inr (JObj []), answered w)
      | Some (RHash h) \<Rightarrow> (Inr (JObj (map (\<lambda>(f, v). (f, JStr v)) h)), answered w)
      | Some (RString v) \<Rightarrow> (Inl StoreFault, answered w))"

text \<open>Modelled from the spec: the Redis client behind \<^verbatim>\<open>cache.hSet\<close> (HSET with the
  properties of an object), awaited by the wrapper. When every property value is one
  the client accepts, each is written as text into the hash, which is created when the
  key does not exist; fields not named are kept. Otherwise the client throws and the
  command is not sent.\<close>

definition hset_fields :: "(string \<times> string) list \<Rightarrow> (string \<times> jsval) list \<Rightarrow> (string \<times> string) list" where
  "hset_fields h fs = foldl (\<lambda>h (f, v). AList.update f (to_string v) h) h fs"

definition cache_hSet :: "string \<Rightarrow> jsval \<Rightarrow> unit prog" where
  "cache_hSet key v w =
     (if list_all sendable (map snd (fields_of v)) then
        (if fields_of v = [] then (Inl StoreFault, answered w)
         else
           (case settled w key of
              None \<Rightarrow>
                (Inr (), \<lparr> server = (settled w)(key \<mapsto> RHash (hset_fields [] (fields_of v))),
                          queued = [] \<rparr>)
            | Some (RHash h) \<Rightarrow>
                (Inr (), \<lparr> server = (settled w)(key \<mapsto> RHash (hset_fields h (fields_of v))),
                          queued = [] \<rparr>)
            | Some (RString x) \<Rightarrow> (Inl StoreFault, answered w)))
      else (Inl InvalidArgument, w))"

text \<open>Modelled from the spec: the Redis client behind \<^verbatim>\<open>cache.del\<close> (DEL). The wrapper is
  \<^verbatim>\<open>async del(key) { this.client.del(key); }\<close>: the command is queued and the caller
  resumes at once.\<close>

definition cache_del :: "string \<Rightarrow> unit prog" where
  "cache_del key w = (Inr (), w\<lparr> queued := queued w @ [Del key] \<rparr>)"

section \<open>The environment of a verification\<close>

text \<open>
  What \<^verbatim>\<open>verifyTicket\<close> reads besides its arguments and the store:
  \<^item> \<open>jwt_verify\<close>: \<^verbatim>\<open>jwt.verify(token, process.env.JWT_SECRET)\<close> of the jsonwebtoken
    library on a string token: the payload, a TokenExpiredError, or another error;
  \<^item> \<open>ISS\<close>: \<^verbatim>\<open>process.env.ISS\<close>;
  \<^item> \<open>now\<close>: \<^verbatim>\<open>Date.now()\<close>;
  \<^item> \<open>date_ms\<close>: \<^verbatim>\<open>new Date(v).getTime()\<close>, \<open>None\<close> for NaN (an invalid date).
\<close>

datatype jwt_outcome = Payload jsval | ExpiredError | OtherError

record env =
  jwt_verify :: "string \<Rightarrow> jwt_outcome"
  ISS :: jsval
  now :: int
  date_ms :: "jsval \<Rightarrow> int option"

section \<open>Tickets\<close>

text \<open>\<^verbatim>\<open>Tickets.verifyToken\<close>. The library refuses a token that is not a string with a
  JsonWebTokenError, which is not a TokenExpiredError.\<close>

definition verifyToken :: "env \<Rightarrow> jsval \<Rightarrow> error + jsval" where
  "verifyToken env token =
     (case token of
        JStr t \<Rightarrow>
          (case jwt_verify env t of
             Payload d \<Rightarrow> Inr d
           | ExpiredError \<Rightarrow> Inl TokenExpired
           | OtherError \<Rightarrow> Inl InvalidToken)
      | _ \<Rightarrow> Inl InvalidToken)"

definition validateIssuer :: "env \<Rightarrow> jsval \<Rightarrow> unit prog" where
  "validateIssuer env decode =
     (if strict_eq (get_field decode ''issuer'') (ISS env) then return ()
      else throw IssuerMismatch)"

definition checkTicketExpiry :: "env \<Rightarrow> jsval \<Rightarrow> unit prog" where
  "checkTicketExpiry env decode =
     (case date_ms env (get_field decode ''valid_until'') of
        None \<Rightarrow> return ()
      | Some t \<Rightarrow> if t < now env then throw TicketExpired else return ())"

definition validateEventId :: "jsval \<Rightarrow> jsval \<Rightarrow> unit prog" where
  "validateEventId decode event =
     (if strict_eq (get_field decode ''event_id'') (get_field event ''id'') then return ()
      else throw EventMismatch)"

definition checkBlacklisted :: "jsval \<Rightarrow> unit prog" where
  "checkBlacklisted ticketId =
     bind (cache_get (''blacklist:'' @ to_string ticketId)) (\<lambda>isBlacklisted.
       if truthy isBlacklisted then throw Blacklisted else return ())"

definition checkRevoked :: "jsval \<Rightarrow> unit prog" where
  "checkRevoked ticketId =
     bind (cache_get (''revoked:'' @ to_string ticketId)) (\<lambda>isRevoked.
       if truthy isRevoked then throw Revoked else return ())"

definition checkConcurrentProcessing :: "jsval \<Rightarrow> unit prog" where
  "checkConcurrentProcessing ticketId =
     bind (cache_get (''lock:'' @ to_string ticketId)) (\<lambda>checkLock.
       if truthy checkLock then throw ConcurrentProcessing else return ())"

text \<open>Lines 148 to 195 of \<^verbatim>\<open>verifyTicket\<close>: the ticket record is read and either created
  (first entry), updated (re-entry) or the attempt is rejected.\<close>

definition resolveTicketRecord :: "jsval \<Rightarrow> jsval \<Rightarrow> jsval \<Rightarrow> jsval \<Rightarrow> jsval \<Rightarrow> jsval prog" where
  "resolveTicketRecord decode event deviceKey time attendeesCount =
     bind (cache_hGetAll (''ticket:'' @ to_string (get_field decode ''ticket_id''))) (\<lambda>checkValidity.
       if falsy checkValidity \<or> fields_of checkValidity = [] then
         (let newTicketData = spread decode
                [(''status'', JStr ''valid''),
                 (''scanned'', JDate time),
                 (''device_id'', deviceKey),
                 (''entry_status'', JStr ''in''),
                 (''entry_count'', JNum 1)]
          in bind (cache_hSet (''ticket:'' @ to_string (get_field decode ''ticket_id'')) newTicketData) (\<lambda>_.
             bind (cache_set ''current_attendees_count'' (js_add attendeesCount (JNum 1)) None) (\<lambda>_.
             return newTicketData)))
       else if strict_eq (get_field checkValidity ''status'') (JStr ''valid'') then
         (if strict_eq (get_field checkValidity ''entry_status'') (JStr ''in'') then
            throw AlreadyInside
          else if js_ge (get_field checkValidity ''entry_count'') (get_field event ''max_entries'') then
            throw MaxEntriesReached
          else
            (let entered = set_field checkValidity ''entry_status'' (JStr ''in'');
                 updated = set_field entered ''entry_count''
                             (js_add (get_field entered ''entry_count'') (JNum 1))
             in bind (cache_hSet (''ticket:'' @ to_string (get_field updated ''ticket_id'')) updated) (\<lambda>_.
                bind (cache_set ''current_attendees_count'' (js_add attendeesCount (JNum 1)) None) (\<lambda>_.
                return updated))))
       else throw TicketInvalidOrRevoked)"

text \<open>Lines 127 to 146 of \<^verbatim>\<open>verifyTicket\<close>, the part of the \<^verbatim>\<open>try\<close> block that runs
  once \<open>decode\<close> is assigned, up to the capacity check, followed by the resolution of
  the ticket record.\<close>

definition verifyDecoded :: "env \<Rightarrow> jsval \<Rightarrow> jsval \<Rightarrow> jsval \<Rightarrow> jsval \<Rightarrow> jsval prog" where
  "verifyDecoded env decode event deviceKey time =
     bind (validateIssuer env decode) (\<lambda>_.
     bind (checkTicketExpiry env decode) (\<lambda>_.
     bind (validateEventId decode event) (\<lambda>_.
     bind (checkBlacklisted (get_field decode ''ticket_id'')) (\<lambda>_.
     bind (checkRevoked (get_field decode ''ticket_id'')) (\<lambda>_.
     bind (checkConcurrentProcessing (get_field decode ''ticket_id'')) (\<lambda>_.
     bind (cache_set (''lock:'' @ to_string (get_field decode ''ticket_id''))
             (get_field decode ''ticket_id'') (Some 30)) (\<lambda>_.
     bind (cache_get ''current_attendees_count'') (\<lambda>stored.
       (let attendeesCount = js_or stored (JNum 0)
        in if js_ge attendeesCount (get_field event ''max_capacity'') then throw EventFull
           else resolveTicketRecord decode event deviceKey time attendeesCount)))))))))"

text \<open>\<^verbatim>\<open>Tickets.verifyTicket\<close>. The \<^verbatim>\<open>catch\<close> block logs and rethrows; the \<^verbatim>\<open>finally\<close>
  block runs on every exit and calls \<^verbatim>\<open>cache.del\<close> on the lock when \<open>decode\<close> has been
  assigned a truthy value. The state returned is the one in which the promise of
  \<^verbatim>\<open>verifyTicket\<close> settles.\<close>

definition verifyTicket :: "env \<Rightarrow> jsval \<Rightarrow> jsval \<Rightarrow> jsval \<Rightarrow> jsval prog" where
  "verifyTicket env token deviceKey time w =
     (case cache_hGetAll ''current_event'' w of
        (Inl e, w1) \<Rightarrow> (Inl e, w1)
      | (Inr event, w1) \<Rightarrow>
          if falsy event then (Inl NoCurrentEvent, w1)
          else
            (case verifyToken env token of
               Inl e \<Rightarrow> (Inl e, w1)
             | Inr decode \<Rightarrow>
                 (case verifyDecoded env decode event deviceKey time w1 of
                    (r, w2) \<Rightarrow>
                      (r, if truthy decode
                          then snd (cache_del (''lock:'' @ to_string (get_field decode ''ticket_id'')) w2)
                          else w2))))"

section \<open>The event controller and the queue worker\<close>

text \<open>\<^verbatim>\<open>EventController.setEvent\<close>: the event written to \<^verbatim>\<open>current_event\<close> has the four
  fields \<^verbatim>\<open>id\<close>, \<^verbatim>\<open>name\<close>, \<^verbatim>\<open>max_capacity\<close> and \<^verbatim>\<open>validity\<close>. The result is the HTTP status
  sent.\<close>

definition setEvent :: "jsval \<Rightarrow> client \<Rightarrow> nat \<times> client" where
  "setEvent body w =
     (let event_id = get_field body ''event_id'';
          capacity = get_field body ''capacity'';
          event_name = get_field body ''event_name'';
          event_validity = get_field body ''event_validity''
      in if falsy event_id \<or> falsy capacity \<or> falsy event_name \<or> falsy event_validity
         then (400, w)
         else (case cache_hSet ''current_event''
                      (JObj [(''id'', event_id), (''name'', event_name),
                             (''max_capacity'', capacity), (''validity'', event_validity)]) w of
                 (Inr u, w') \<Rightarrow> (200, w')
               | (Inl e, w') \<Rightarrow> (500, w')))"

text \<open>\<^verbatim>\<open>util/worker.js\<close>: the processor of the verification queue calls
  \<^verbatim>\<open>Tickets.verifyTicket(job.data)\<close>, with the payload as the only argument.\<close>

record job =
  job_id :: nat
  job_data :: jsval

definition process :: "env \<Rightarrow> job \<Rightarrow> jsval prog" where
  "process env j = verifyTicket env (job_data j) JUndefined JUndefined"

section \<open>Two attempts on one ticket\<close>

text \<open>
  Lines 137 to 140 of \<^verbatim>\<open>verifyTicket\<close> take the lock with two calls, each behind an
  \<^verbatim>\<open>await\<close>: the read of \<^verbatim>\<open>checkConcurrentProcessing\<close> and then the write of \<^verbatim>\<open>cache.set\<close>.
  An attempt is suspended at each \<^verbatim>\<open>await\<close>, so the commands of two attempts running in
  one server process reach the client in some interleaved order. \<open>acquire_step\<close> runs
  the next command of one attempt; \<open>run_two\<close> runs two attempts on the same ticket
  under a schedule that names, for each command in turn, the attempt that issues it
  (\<open>True\<close> for the first).
\<close>

datatype stage = Checking | Locking | Proceeded | Failed error

fun acquire_step :: "jsval \<Rightarrow> stage \<Rightarrow> client \<Rightarrow> stage \<times> client" where
  "acquire_step ticketId Checking w =
     (case checkConcurrentProcessing ticketId w of
        (Inl e, w') \<Rightarrow> (Failed e, w')
      | (Inr u, w') \<Rightarrow> (Locking, w'))"
| "acquire_step ticketId Locking w =
     (case cache_set (''lock:'' @ to_string ticketId) ticketId (Some 30) w of
        (r, w') \<Rightarrow> (Proceeded, w'))"
| "acquire_step ticketId st w = (st, w)"

fun run_two :: "jsval \<Rightarrow> bool list \<Rightarrow> stage \<times> stage \<times> client \<Rightarrow> stage \<times> stage \<times> client" where
  "run_two ticketId [] c = c"
| "run_two ticketId (first # sched) (a, b, w) =
     (if first
      then (case acquire_step ticketId a w of (a', w') \<Rightarrow> run_two ticketId sched (a', b, w'))
      else (case acquire_step ticketId b w of (b', w') \<Rightarrow> run_two ticketId sched (a, b', w')))"

section \<open>A turnstile in operation\<close>

text \<open>
  Concrete data on which the service is run below: an issuer \<^verbatim>\<open>boxoffice\<close>, tokens
  \<^verbatim>\<open>jwt:<ticket id>\<close> whose payload names event \<^verbatim>\<open>E1\<close>, a scanner \<^verbatim>\<open>D1\<close>, and an event
  set through \<^verbatim>\<open>setEvent\<close> on an empty store.
\<close>

definition ticket_claims :: "string \<Rightarrow> jsval" where
  "ticket_claims tid =
     JObj [(''ticket_id'', JStr tid), (''event_id'', JStr ''E1''),
           (''issuer'', JStr ''boxoffice''), (''valid_until'', JNum 2000)]"

definition site_env :: env where
  "site_env =
     \<lparr> jwt_verify = (\<lambda>t. if take 4 t = ''jwt:'' then Payload (ticket_claims (drop 4 t))
                          else OtherError),
       ISS = JStr ''boxoffice'',
       now = 1000,
       date_ms = (\<lambda>v. case v of JNum n \<Rightarrow> Some n | _ \<Rightarrow> None) \<rparr>"

definition event_body :: "int \<Rightarrow> jsval" where
  "event_body cap =
     JObj [(''event_id'', JStr ''E1''), (''capacity'', JNum cap),
           (''event_name'', JStr ''Expo''), (''event_validity'', JStr ''2030'')]"

definition opened :: "int \<Rightarrow> client" where
  "opened cap = snd (setEvent (event_body cap) (holding Map.empty))"

definition scan :: "string \<Rightarrow> jsval prog" where
  "scan tid = verifyTicket site_env (JStr (''jwt:'' @ tid)) (JStr ''D1'') (JNum 1500)"

text \<open>An event as \<^verbatim>\<open>setEvent\<close> stores it, and one that also carries the field
  \<^verbatim>\<open>max_entries\<close>, which \<^verbatim>\<open>setEvent\<close> never writes.\<close>

definition event_row :: "string \<Rightarrow> rval" where
  "event_row cap =
     RHash [(''id'', ''E1''), (''name'', ''Expo''), (''max_capacity'', cap),
            (''validity'', ''2030'')]"

definition event_row_entries :: "string \<Rightarrow> string \<Rightarrow> rval" where
  "event_row_entries cap max_entries =
     RHash [(''id'', ''E1''), (''name'', ''Expo''), (''max_capacity'', cap),
            (''validity'', ''2030''), (''max_entries'', max_entries)]"

text \<open>A store in which ticket \<^verbatim>\<open>A\<close> is valid and has left after a number of entries,
  the record it holds, and the record the service returns for its re-entry: every field
  is the string read from the store. The service itself never writes \<^verbatim>\<open>entry_status\<close>
  other than \<^verbatim>\<open>in\<close>; such a record is written to the store from outside, as the re-entry
  branch of \<^verbatim>\<open>verifyTicket\<close> presupposes.\<close>

definition left_row :: "string \<Rightarrow> string \<Rightarrow> rval" where
  "left_row entry_status entry_count =
     RHash [(''ticket_id'', ''A''), (''event_id'', ''E1''), (''issuer'', ''boxoffice''),
            (''valid_until'', ''2000''), (''status'', ''valid''),
            (''scanned'', ''2024-05-01T10:00:00.000Z''), (''device_id'', ''D1''),
            (''entry_status'', entry_status), (''entry_count'', entry_count)]"

definition left_store :: "rval \<Rightarrow> string \<Rightarrow> client" where
  "left_store event entry_count =
     holding [''current_event'' \<mapsto> event,
              ''ticket:A'' \<mapsto> left_row ''out'' entry_count]"

definition reentry_record :: "string \<Rightarrow> jsval" where
  "reentry_record entry_count =
     JObj [(''ticket_id'', JStr ''A''), (''event_id'', JStr ''E1''),
           (''issuer'', JStr ''boxoffice''), (''valid_until'', JStr ''2000''),
           (''status'', JStr ''valid''), (''scanned'', JStr ''2024-05-01T10:00:00.000Z''),
           (''device_id'', JStr ''D1''), (''entry_status'', JStr ''in''),
           (''entry_count'', JStr entry_count)]"

text \<open>The same state with the attendee counter at a given text, with ticket \<^verbatim>\<open>A\<close> inside
  after one entry, and with a lock held for a ticket.\<close>

definition counting :: "string \<Rightarrow> client \<Rightarrow> client" where
  "counting n w = w\<lparr> server := (server w)(''current_attendees_count'' \<mapsto> RString n) \<rparr>"

definition inside :: "client \<Rightarrow> client" where
  "inside w = w\<lparr> server := (server w)(''ticket:A'' \<mapsto> left_row ''in'' ''1'') \<rparr>"

definition locked :: "string \<Rightarrow> client \<Rightarrow> client" where
  "locked tid w = w\<lparr> server := (server w)(''lock:'' @ tid \<mapsto> RString tid) \<rparr>"

text \<open>A job of the verification queue for ticket \<^verbatim>\<open>A\<close>.\<close>

definition scan_job :: job where
  "scan_job =
     \<lparr> job_id = 7,
       job_data = JObj [(''token'', JStr ''jwt:A''), (''deviceKey'', JStr ''D1''),
                        (''scanTime'', JNum 1500)] \<rparr>"

section \<open>Unfolding the model\<close>

lemmas js_defs = get_field_def set_field_def spread_def falsy_def js_or_def js_ge_def js_add_def
  nat_digits.simps digit_char_def str_to_number_def digit_val_def digit_table_def

lemmas cache_defs = cache_hGetAll_def cache_hSet_def cache_get_def cache_set_def cache_del_def
  hset_fields_def bind_def return_def throw_def Let_def settled_def answered_def holding_def

lemmas ticket_defs = verifyTicket_def verifyDecoded_def resolveTicketRecord_def verifyToken_def
  validateIssuer_def checkTicketExpiry_def validateEventId_def checkBlacklisted_def
  checkRevoked_def checkConcurrentProcessing_def

lemmas site_defs = ticket_claims_def site_env_def event_body_def opened_def scan_def
  event_row_def event_row_entries_def left_row_def left_store_def reentry_record_def
  counting_def inside_def locked_def scan_job_def process_def setEvent_def

section \<open>Answers and queued commands\<close>

lemma settled_answered: "settled (answered w) = settled w"
  by (simp add: settled_def answered_def)

lemma answered_answered: "answered (answered w) = answered w"
  by (simp add: settled_def answered_def)

lemma server_answered: "server (answered w) = settled w"
  by (simp add: answered_def)

lemma queued_answered: "queued (answered w) = []"
  by (simp add: answered_def)

lemma settled_requeued:
  "settled (w\<lparr> queued := cs \<rparr>) = foldl (\<lambda>s c. execute c s) (server w) cs"
  by (simp add: settled_def)

lemma settled_literal:
  "settled \<lparr> server = s, queued = cs \<rparr> = foldl (\<lambda>s c. execute c s) s cs"
  by (simp add: settled_def)

lemma settled_fold: "foldl (\<lambda>s c. execute c s) (server w) (queued w) = settled w"
  by (simp add: settled_def)

lemma settled_nothing_queued: "queued w = [] \<Longrightarrow> settled w = server w"
  by (simp add: settled_def)

lemmas client_simps = answered_def settled_requeued settled_literal settled_fold

section \<open>Checks and reads write nothing\<close>

text \<open>The three checks on the claims send no command. A read leaves the client in the
  state in which its answer arrived.\<close>

lemma validateIssuer_keeps: "validateIssuer env d w = (r, w1) \<Longrightarrow> w1 = w"
  by (auto simp: validateIssuer_def return_def throw_def split: if_splits)

lemma checkTicketExpiry_keeps: "checkTicketExpiry env d w = (r, w1) \<Longrightarrow> w1 = w"
  by (auto simp: checkTicketExpiry_def return_def throw_def split: option.splits if_splits)

lemma validateEventId_keeps: "validateEventId d ev w = (r, w1) \<Longrightarrow> w1 = w"
  by (auto simp: validateEventId_def return_def throw_def split: if_splits)

lemma cache_get_keeps: "cache_get k w = (r, w1) \<Longrightarrow> w1 = answered w"
  by (auto simp: cache_get_def split: option.splits rval.splits)

lemma cache_hGetAll_keeps: "cache_hGetAll k w = (r, w1) \<Longrightarrow> w1 = answered w"
  by (auto simp: cache_hGetAll_def split: option.splits rval.splits)

lemma checkBlacklisted_keeps: "checkBlacklisted t w = (r, w1) \<Longrightarrow> w1 = answered w"
  by (auto simp: checkBlacklisted_def cache_get_def bind_def return_def throw_def
      split: option.splits rval.splits if_splits)

lemma checkRevoked_keeps: "checkRevoked t w = (r, w1) \<Longrightarrow> w1 = answered w"
  by (auto simp: checkRevoked_def cache_get_def bind_def return_def throw_def
      split: option.splits rval.splits if_splits)

lemma checkConcurrentProcessing_keeps:
  "checkConcurrentProcessing t w = (r, w1) \<Longrightarrow> w1 = answered w"
  by (auto simp: checkConcurrentProcessing_def cache_get_def bind_def return_def throw_def
      split: option.splits rval.splits if_splits)

lemmas check_keeps =
  validateIssuer_keeps checkTicketExpiry_keeps validateEventId_keeps checkBlacklisted_keeps
  checkRevoked_keeps checkConcurrentProcessing_keeps cache_get_keeps cache_hGetAll_keeps

text \<open>What \<^verbatim>\<open>hGetAll\<close> returns is an object, so the test \<^verbatim>\<open>!event\<close> never fires.\<close>

lemma cache_hGetAll_object: "fst (cache_hGetAll k w) = Inr ev \<Longrightarrow> truthy ev"
  by (auto simp: cache_hGetAll_def split: option.splits rval.splits)

section \<open>A failed attempt writes nothing but its lock\<close>

lemma resolve_fail:
  "resolveTicketRecord d ev dk t c w = (Inl e, w') \<Longrightarrow> w' = answered w"
  by (auto simp: resolveTicketRecord_def bind_def return_def throw_def cache_hGetAll_def
      cache_hSet_def cache_set_def Let_def client_simps
      split: option.splits rval.splits if_splits)

lemma verifyDecoded_fail:
  assumes "verifyDecoded env d ev dk t w = (Inl e, w')"
  shows "w' = w \<or> w' = answered w \<or>
         w' = \<lparr> server = (settled w)(''lock:'' @ to_string (get_field d ''ticket_id'')
                                \<mapsto> RString (to_string (get_field d ''ticket_id''))),
                queued = [] \<rparr>"
  using assms
  unfolding verifyDecoded_def
  by (auto simp: bind_def cache_set_def Let_def throw_def client_simps
      split: sum.splits if_splits prod.splits dest!: resolve_fail check_keeps)

text \<open>
  C7. When \<^verbatim>\<open>verifyTicket\<close> throws, whatever the error (each rejection from
  \<open>NoCurrentEvent\<close> to \<open>TicketInvalidOrRevoked\<close>, and a refusal by the client or the
  server as well), the attendee counter and every ticket record, the one of the scanned
  ticket included, are in the store exactly as the commands sent before the attempt
  have made them: both at the moment the attempt completes and once the command the
  attempt has left queued is executed. For a client with nothing in flight before the
  attempt, that is the store as it was.
\<close>

theorem rejection_keeps_ticket_and_counter:
  assumes "verifyTicket env token deviceKey time w = (Inl e, w')"
  shows "server w' ''current_attendees_count'' = settled w ''current_attendees_count'' \<and>
         server w' (''ticket:'' @ k) = settled w (''ticket:'' @ k) \<and>
         settled w' ''current_attendees_count'' = settled w ''current_attendees_count'' \<and>
         settled w' (''ticket:'' @ k) = settled w (''ticket:'' @ k)"
  using assms
  unfolding verifyTicket_def
  by (auto simp: cache_del_def client_simps split: sum.splits if_splits prod.splits
      dest!: verifyDecoded_fail check_keeps)

text \<open>The witness scans ticket \<^verbatim>\<open>A\<close> while it is inside, on a client with nothing in
  flight.\<close>

theorem rejection_keeps_ticket_and_counter_witness:
  "fst (verifyTicket site_env (JStr ''jwt:A'') (JStr ''D1'') (JNum 1500)
          (counting ''1'' (inside (opened 5)))) = Inl AlreadyInside \<and>
   queued (counting ''1'' (inside (opened 5))) = [] \<and>
   server (counting ''1'' (inside (opened 5))) ''current_attendees_count''
     = Some (RString ''1'') \<and>
   server (counting ''1'' (inside (opened 5))) (''ticket:'' @ ''A'')
     = Some (left_row ''in'' ''1'') \<and>
   server (snd (verifyTicket site_env (JStr ''jwt:A'') (JStr ''D1'') (JNum 1500)
                  (counting ''1'' (inside (opened 5))))) ''current_attendees_count''
     = Some (RString ''1'') \<and>
   server (snd (verifyTicket site_env (JStr ''jwt:A'') (JStr ''D1'') (JNum 1500)
                  (counting ''1'' (inside (opened 5))))) (''ticket:'' @ ''A'')
     = Some (left_row ''in'' ''1'') \<and>
   settled (snd (verifyTicket site_env (JStr ''jwt:A'') (JStr ''D1'') (JNum 1500)
                   (counting ''1'' (inside (opened 5))))) ''current_attendees_count''
     = Some (RString ''1'') \<and>
   settled (snd (verifyTicket site_env (JStr ''jwt:A'') (JStr ''D1'') (JNum 1500)
                   (counting ''1'' (inside (opened 5))))) (''ticket:'' @ ''A'')
     = Some (left_row ''in'' ''1'')"
proof -
  let ?w = "counting ''1'' (inside (opened 5))"
  let ?run = "verifyTicket site_env (JStr ''jwt:A'') (JStr ''D1'') (JNum 1500) ?w"
  have rejected: "fst ?run = Inl AlreadyInside"
    by (simp add: site_defs ticket_defs js_defs cache_defs)
  have before: "queued ?w = []"
    "settled ?w ''current_attendees_count'' = Some (RString ''1'')"
    "settled ?w (''ticket:'' @ ''A'') = Some (left_row ''in'' ''1'')"
    "server ?w ''current_attendees_count'' = Some (RString ''1'')"
    "server ?w (''ticket:'' @ ''A'') = Some (left_row ''in'' ''1'')"
    by (simp_all add: site_defs js_defs cache_defs)
  from rejected have "?run = (Inl AlreadyInside, snd ?run)"
    by (simp add: prod_eq_iff)
  from rejection_keeps_ticket_and_counter [OF this, of "''A''"] rejected before
  show ?thesis
    by simp
qed

text \<open>An attempt whose token does not decode sends no command of its own: the
  \<^verbatim>\<open>finally\<close> block finds \<open>decode\<close> unassigned and deletes nothing.\<close>

lemma undecoded_attempt_sends_nothing:
  "verifyToken env token = Inl e \<Longrightarrow>
     snd (verifyTicket env token deviceKey time w) = answered w"
  by (auto simp: verifyTicket_def split: sum.splits prod.splits dest: cache_hGetAll_keeps)

section \<open>The lock after an attempt\<close>

text \<open>Once the token has decoded, the last command of every attempt is the DEL of the
  lock, and the lock is absent once that command has been executed. The command is
  queued, not executed, when the attempt completes.\<close>

lemma lock_released_once_settled:
  assumes "verifyToken env token = Inr (JObj claims)"
      and "map_of claims ''ticket_id'' = Some tid"
      and "fst (cache_hGetAll ''current_event'' w) \<noteq> Inl StoreFault"
  shows "settled (snd (verifyTicket env token deviceKey time w)) (''lock:'' @ to_string tid) = None \<and>
         queued (snd (verifyTicket env token deviceKey time w)) \<noteq> [] \<and>
         last (queued (snd (verifyTicket env token deviceKey time w))) = Del (''lock:'' @ to_string tid)"
  using assms
  by (auto simp: verifyTicket_def cache_hGetAll_def cache_del_def falsy_def get_field_def
      settled_def
      split: sum.splits if_splits prod.splits option.splits rval.splits)

text \<open>
  C6, evaluated where the code departs from it. The event is full (capacity 100, counter
  100) and no lock is in the store. The scan of ticket \<^verbatim>\<open>C\<close> writes the lock, reads the
  counter and is rejected with \<open>EventFull\<close>; the \<^verbatim>\<open>finally\<close> block calls \<^verbatim>\<open>cache.del\<close>,
  which returns without waiting. When \<^verbatim>\<open>verifyTicket\<close> completes the server still holds
  \<^verbatim>\<open>lock:C\<close> and the DEL is only queued. The same holds after an admission: ticket \<^verbatim>\<open>A\<close>
  re-enters, and at completion the server holds \<^verbatim>\<open>lock:A\<close> with the write of the counter
  and the DEL queued.
\<close>

theorem lock_still_held_at_completion:
  "queued (counting ''100'' (opened 100)) = [] \<and>
   server (counting ''100'' (opened 100)) ''lock:C'' = None \<and>
   fst (scan ''C'' (counting ''100'' (opened 100))) = Inl EventFull \<and>
   server (snd (scan ''C'' (counting ''100'' (opened 100)))) ''lock:C'' = Some (RString ''C'') \<and>
   queued (snd (scan ''C'' (counting ''100'' (opened 100)))) = [Del ''lock:C''] \<and>
   server (left_store (event_row ''100'') ''1'') ''lock:A'' = None \<and>
   fst (scan ''A'' (left_store (event_row ''100'') ''1'')) = Inr (reentry_record ''11'') \<and>
   server (snd (scan ''A'' (left_store (event_row ''100'') ''1''))) ''lock:A''
     = Some (RString ''A'') \<and>
   queued (snd (scan ''A'' (left_store (event_row ''100'') ''1'')))
     = [Set ''current_attendees_count'' ''1'', Del ''lock:A'']"
  by (simp add: site_defs ticket_defs js_defs cache_defs)

section \<open>A lock that is already there\<close>

text \<open>When the token decodes to claims that carry \<^verbatim>\<open>ticket_id\<close>, every check before
  the lock passes, and the key \<^verbatim>\<open>lock:<ticket_id>\<close> holds a string that is not empty,
  \<^verbatim>\<open>verifyTicket\<close> throws \<open>ConcurrentProcessing\<close> and queues the DEL of that key: once
  it is executed the key is absent, although the attempt did not write it.\<close>

lemma held_lock_rejected_and_deleted:
  assumes "verifyToken env token = Inr (JObj claims)"
      and "map_of claims ''ticket_id'' = Some tid"
      and "fst (cache_hGetAll ''current_event'' w) = Inr event"
      and "fst (validateIssuer env (JObj claims) w) = Inr ()"
      and "fst (checkTicketExpiry env (JObj claims) w) = Inr ()"
      and "fst (validateEventId (JObj claims) event w) = Inr ()"
      and "fst (checkBlacklisted tid w) = Inr ()"
      and "fst (checkRevoked tid w) = Inr ()"
      and "settled w (''lock:'' @ to_string tid) = Some (RString v)"
      and "v \<noteq> []"
  shows "fst (verifyTicket env token deviceKey time w) = Inl ConcurrentProcessing \<and>
         queued (snd (verifyTicket env token deviceKey time w)) = [Del (''lock:'' @ to_string tid)] \<and>
         settled (snd (verifyTicket env token deviceKey time w)) (''lock:'' @ to_string tid) = None"
proof -
  let ?a = "answered w"
  have tid: "get_field (JObj claims) ''ticket_id'' = tid"
    using assms(2) by (simp add: get_field_def)
  have ev: "cache_hGetAll ''current_event'' w = (Inr event, ?a)"
    using assms(3) cache_hGetAll_keeps [of "''current_event''" w]
    by (cases "cache_hGetAll ''current_event'' w") simp
  have obj: "\<not> falsy event"
    using cache_hGetAll_object [OF assms(3)] by (simp add: falsy_def)
  have c1: "validateIssuer env (JObj claims) ?a = (Inr (), ?a)"
    using assms(4) by (auto simp: validateIssuer_def return_def throw_def split: if_splits)
  have c2: "checkTicketExpiry env (JObj claims) ?a = (Inr (), ?a)"
    using assms(5)
    by (auto simp: checkTicketExpiry_def return_def throw_def split: if_splits option.splits)
  have c3: "validateEventId (JObj claims) event ?a = (Inr (), ?a)"
    using assms(6) by (auto simp: validateEventId_def return_def throw_def split: if_splits)
  have c4: "checkBlacklisted tid ?a = (Inr (), ?a)"
    using assms(7)
    by (auto simp: checkBlacklisted_def cache_get_def bind_def return_def throw_def
        client_simps split: option.splits rval.splits if_splits)
  have c5: "checkRevoked tid ?a = (Inr (), ?a)"
    using assms(8)
    by (auto simp: checkRevoked_def cache_get_def bind_def return_def throw_def
        client_simps split: option.splits rval.splits if_splits)
  have c6: "checkConcurrentProcessing tid ?a = (Inl ConcurrentProcessing, ?a)"
    using assms(9,10)
    by (simp add: checkConcurrentProcessing_def cache_get_def bind_def throw_def client_simps)
  have "verifyDecoded env (JObj claims) event deviceKey time ?a = (Inl ConcurrentProcessing, ?a)"
    by (simp add: verifyDecoded_def bind_def tid c1 c2 c3 c4 c5 c6)
  then show ?thesis
    by (simp add: verifyTicket_def ev obj assms(1) tid cache_del_def client_simps)
qed

text \<open>
  C8, evaluated where the code departs from it. The key \<^verbatim>\<open>lock:\<close> of the ticket id
  \<^verbatim>\<open>""\<close> is present and holds the empty string, which is what line 140 writes for that
  ticket; every check before the lock passes. \<^verbatim>\<open>checkConcurrentProcessing\<close> tests the
  value read, not the presence of the key, and returns. The attempt goes on to the
  capacity check, where the full event rejects it with \<open>EventFull\<close>, not with
  \<open>ConcurrentProcessing\<close>.
\<close>

theorem empty_lock_not_rejected:
  "server (locked [] (counting ''100'' (opened 100))) (''lock:'' @ to_string (JStr []))
     = Some (RString []) \<and>
   queued (locked [] (counting ''100'' (opened 100))) = [] \<and>
   fst (checkConcurrentProcessing (JStr []) (locked [] (counting ''100'' (opened 100))))
     = Inr () \<and>
   fst (verifyTicket site_env (JStr ''jwt:'') (JStr ''D1'') (JNum 1500)
          (locked [] (counting ''100'' (opened 100)))) = Inl EventFull"
  by (simp add: site_defs ticket_defs js_defs cache_defs)

text \<open>With a lock that holds the ticket id \<^verbatim>\<open>A\<close> the same scan is rejected as
  concurrent.\<close>

lemma held_lock_rejected_example:
  "fst (scan ''A'' (locked ''A'' (counting ''100'' (opened 100)))) = Inl ConcurrentProcessing \<and>
   queued (snd (scan ''A'' (locked ''A'' (counting ''100'' (opened 100))))) = [Del ''lock:A'']"
  by (simp add: site_defs ticket_defs js_defs cache_defs)

section \<open>The text of a number reads back as the number\<close>

lemma digit_cases:
  "d < 10 \<Longrightarrow> d = 0 \<or> d = 1 \<or> d = 2 \<or> d = 3 \<or> d = 4 \<or> d = 5 \<or> d = 6 \<or> d = 7 \<or> d = 8 \<or> d = (9::nat)"
  by arith

lemma digit_val_digit_char: "d < 10 \<Longrightarrow> digit_val (digit_char d) = Some d"
  using digit_cases [of d] by (auto simp: digit_val_def digit_table_def digit_char_def)

lemma parse_digits_append:
  "parse_digits acc (xs @ ys) =
     (case parse_digits acc xs of None \<Rightarrow> None | Some a \<Rightarrow> parse_digits a ys)"
  by (induction xs arbitrary: acc) (auto split: option.splits)

lemma parse_nat_digits: "parse_digits 0 (nat_digits n) = Some n"
proof (induction n rule: nat_digits.induct)
  case (1 n)
  show ?case
  proof (cases "n < 10")
    case True
    then show ?thesis
      by (subst nat_digits.simps) (simp add: digit_val_digit_char)
  next
    case False
    with 1 have "parse_digits 0 (nat_digits (n div 10)) = Some (n div 10)"
      by simp
    with False show ?thesis
      by (subst nat_digits.simps) (simp add: parse_digits_append digit_val_digit_char)
  qed
qed

lemma nat_digits_head: "\<exists>d ds. nat_digits n = digit_char d # ds \<and> d < 10"
proof (induction n rule: nat_digits.induct)
  case (1 n)
  show ?case
  proof (cases "n < 10")
    case True
    then show ?thesis
      by (subst nat_digits.simps) auto
  next
    case False
    with 1 have "\<exists>d ds. nat_digits (n div 10) = digit_char d # ds \<and> d < 10"
      by simp
    then obtain d ds where "nat_digits (n div 10) = digit_char d # ds" "d < 10"
      by auto
    with False show ?thesis
      by (subst nat_digits.simps) auto
  qed
qed

lemma digit_char_not_sign: "d < 10 \<Longrightarrow> digit_char d \<noteq> CHR ''-'' \<and> digit_char d \<noteq> CHR ''+''"
  using digit_cases [of d] by (auto simp: digit_char_def)

lemma number_text_reads_back: "to_number (JStr (to_string (JNum (int n)))) = Some (int n)"
proof -
  obtain d ds where "nat_digits n = digit_char d # ds" "d < 10"
    using nat_digits_head [of n] by blast
  then show ?thesis
    using parse_nat_digits [of n] digit_char_not_sign [of d]
    by (simp add: str_to_number_def)
qed

section \<open>First entry\<close>

text \<open>The record of a first entry carries \<^verbatim>\<open>scanned: new Date(time)\<close>, which the client
  refuses: no first entry is written, and every admission is the re-entry of a ticket
  whose record, with at least one field, was in the store before.\<close>

lemma new_record_refused:
  "list_all sendable (map snd (fields_of (spread d
       [(''status'', JStr ''valid''), (''scanned'', JDate time), (''device_id'', dk),
        (''entry_status'', JStr ''in''), (''entry_count'', JNum 1)]))) = False"
proof -
  let ?fs = "fields_of (spread d
       [(''status'', JStr ''valid''), (''scanned'', JDate time), (''device_id'', dk),
        (''entry_status'', JStr ''in''), (''entry_count'', JNum 1)])"
  have "map_of ?fs ''scanned'' = Some (JDate time)"
    by (simp add: spread_def update_conv')
  then have "(''scanned'', JDate time) \<in> set ?fs"
    by (rule map_of_SomeD)
  then have "JDate time \<in> set (map snd ?fs)"
    by force
  then have "\<exists>v\<in>set (map snd ?fs). \<not> sendable v"
    by (intro bexI [of _ "JDate time"]) simp_all
  then show ?thesis
    by (simp add: list_all_iff)
qed

lemma resolve_needs_record:
  assumes "resolveTicketRecord d ev dk t c w = (Inr r, w')"
  shows "\<exists>h. settled w (''ticket:'' @ to_string (get_field d ''ticket_id'')) = Some (RHash h) \<and>
             h \<noteq> []"
  using assms
  by (auto simp: resolveTicketRecord_def bind_def return_def throw_def cache_hGetAll_def
      cache_hSet_def [of _ "spread _ _"] new_record_refused Let_def falsy_def
      split: option.splits rval.splits if_splits)

lemma verifyDecoded_needs_record:
  assumes "verifyDecoded env d ev dk t w = (Inr r, w')"
  shows "\<exists>h. settled w (''ticket:'' @ to_string (get_field d ''ticket_id'')) = Some (RHash h) \<and>
             h \<noteq> []"
  using assms
  unfolding verifyDecoded_def
  by (auto simp: bind_def cache_set_def Let_def throw_def client_simps
      split: sum.splits if_splits prod.splits dest!: resolve_needs_record check_keeps)

lemma admission_needs_record:
  assumes "verifyTicket env token deviceKey time w = (Inr r, w')"
  shows "\<exists>d h. verifyToken env token = Inr d \<and>
               settled w (''ticket:'' @ to_string (get_field d ''ticket_id'')) = Some (RHash h) \<and>
               h \<noteq> []"
  using assms
  unfolding verifyTicket_def
  by (auto simp: client_simps split: sum.splits if_splits prod.splits
      dest!: verifyDecoded_needs_record check_keeps)

section \<open>The counter and the capacity check on stored text\<close>

text \<open>What an admission does to the counter, whatever the store and the ticket: it
  queues the write of the text of \<^verbatim>\<open>attendeesCount + 1\<close>, where \<^verbatim>\<open>attendeesCount\<close> is the
  value read at the capacity check, and that check has compared this value with the
  stored capacity by \<^verbatim>\<open>>=\<close>. A counter that holds a text therefore grows by the
  character \<^verbatim>\<open>1\<close>.\<close>

lemma sendable_js_add: "sendable (js_add a b)"
  by (simp add: js_add_def split: option.splits)

lemma resolve_admits:
  assumes "resolveTicketRecord d ev dk t c w = (Inr r, w')"
  shows "settled w' ''current_attendees_count'' = Some (RString (to_string (js_add c (JNum 1))))"
  using assms
  by (auto simp: resolveTicketRecord_def bind_def return_def throw_def cache_hGetAll_def
      cache_hSet_def cache_set_def sendable_js_add Let_def settled_def
      split: option.splits rval.splits if_splits)

lemma verifyDecoded_admits:
  assumes "verifyDecoded env d ev dk t w = (Inr r, w')"
  shows "\<exists>stored. fst (cache_get ''current_attendees_count'' w) = Inr stored \<and>
           js_ge (js_or stored (JNum 0)) (get_field ev ''max_capacity'') = False \<and>
           settled w' ''current_attendees_count''
             = Some (RString (to_string (js_add (js_or stored (JNum 0)) (JNum 1))))"
  using assms
  unfolding verifyDecoded_def
  by (auto simp: bind_def cache_set_def Let_def throw_def cache_get_def client_simps
      split: sum.splits if_splits prod.splits option.splits rval.splits
      dest!: resolve_admits check_keeps)

lemma cache_get_answered: "fst (cache_get k (answered w)) = fst (cache_get k w)"
  by (simp add: cache_get_def settled_def answered_def split: option.splits rval.splits)

lemma admission_writes_counter:
  assumes "verifyTicket env token deviceKey time w = (Inr r, w')"
  shows "\<exists>stored. fst (cache_get ''current_attendees_count'' w) = Inr stored \<and>
           settled w' ''current_attendees_count''
             = Some (RString (to_string (js_add (js_or stored (JNum 0)) (JNum 1))))"
  using assms
  unfolding verifyTicket_def
  by (auto simp: cache_del_def cache_get_answered settled_def
      split: sum.splits if_splits prod.splits
      dest!: verifyDecoded_admits check_keeps)

lemma counter_text_grows:
  assumes "verifyTicket env token deviceKey time w = (Inr r, w')"
      and "settled w ''current_attendees_count'' = Some (RString c)" and "c \<noteq> []"
  shows "settled w' ''current_attendees_count'' = Some (RString (c @ ''1''))"
  using admission_writes_counter [OF assms(1)] assms(2,3)
  by (auto simp: cache_get_def js_or_def js_add_def nat_digits.simps digit_char_def)

text \<open>The event as \<^verbatim>\<open>setEvent\<close> stores it.\<close>

lemma opened_store: "opened 100 = holding [''current_event'' \<mapsto> event_row ''100'']"
  by (simp add: site_defs js_defs cache_defs)

text \<open>
  C1, evaluated where the code departs from it. First, the event has capacity 100 and
  the counter holds \<^verbatim>\<open>11\<close>. Ticket \<^verbatim>\<open>C\<close> is fresh: no record, no lock, not blacklisted, not
  revoked, and 11 is below 100. The attempt is rejected with \<open>EventFull\<close>, and no record
  is written. Second, on the event just set, with no counter at all, the first scan of
  ticket \<^verbatim>\<open>A\<close> is not admitted either: the client refuses the new record and nothing is
  written.
\<close>

theorem fresh_ticket_rejected_below_capacity:
  "server (counting ''11'' (opened 100)) ''current_event'' = Some (event_row ''100'') \<and>
   server (counting ''11'' (opened 100)) ''current_attendees_count'' = Some (RString ''11'') \<and>
   queued (counting ''11'' (opened 100)) = [] \<and>
   to_number (JStr ''11'') = Some 11 \<and>
   to_number (JStr ''100'') = Some 100 \<and>
   server (counting ''11'' (opened 100)) ''blacklist:C'' = None \<and>
   server (counting ''11'' (opened 100)) ''revoked:C'' = None \<and>
   server (counting ''11'' (opened 100)) ''lock:C'' = None \<and>
   server (counting ''11'' (opened 100)) ''ticket:C'' = None \<and>
   fst (scan ''C'' (counting ''11'' (opened 100))) = Inl EventFull \<and>
   settled (snd (scan ''C'' (counting ''11'' (opened 100)))) ''ticket:C'' = None \<and>
   server (opened 100) ''current_attendees_count'' = None \<and>
   server (opened 100) ''ticket:A'' = None \<and>
   fst (scan ''A'' (opened 100)) = Inl InvalidArgument \<and>
   settled (snd (scan ''A'' (opened 100))) ''ticket:A'' = None \<and>
   settled (snd (scan ''A'' (opened 100))) ''current_attendees_count'' = None"
  by (simp add: site_defs ticket_defs js_defs cache_defs)

text \<open>
  C2, evaluated where the code departs from it. The event has capacity 5, four
  attendees are counted, and ticket \<^verbatim>\<open>A\<close> is outside after one entry. Its scan is
  admitted, and the write it sends sets the counter to \<^verbatim>\<open>41\<close>, which is more than 5.
\<close>

theorem counter_exceeds_capacity_after_admission:
  "server (counting ''4'' (left_store (event_row ''5'') ''1'')) ''current_event''
     = Some (event_row ''5'') \<and>
   server (counting ''4'' (left_store (event_row ''5'') ''1'')) ''current_attendees_count''
     = Some (RString ''4'') \<and>
   fst (scan ''A'' (counting ''4'' (left_store (event_row ''5'') ''1'')))
     = Inr (reentry_record ''11'') \<and>
   queued (snd (scan ''A'' (counting ''4'' (left_store (event_row ''5'') ''1''))))
     = [Set ''current_attendees_count'' ''41'', Del ''lock:A''] \<and>
   settled (snd (scan ''A'' (counting ''4'' (left_store (event_row ''5'') ''1''))))
     ''current_attendees_count'' = Some (RString ''41'') \<and>
   to_number (JStr ''4'') = Some 4 \<and>
   to_number (JStr ''41'') = Some 41 \<and>
   to_number (JStr ''5'') = Some 5"
  by (simp add: site_defs ticket_defs js_defs cache_defs)

text \<open>
  C3, evaluated where the code departs from it. The counter holds \<^verbatim>\<open>1\<close> and ticket \<^verbatim>\<open>A\<close>
  re-enters. The admission reads that value and sends the write of \<^verbatim>\<open>"1" + 1\<close>, the
  text \<^verbatim>\<open>11\<close>, not 2.
\<close>

theorem admission_appends_to_counter:
  "server (counting ''1'' (left_store (event_row ''100'') ''1'')) ''current_attendees_count''
     = Some (RString ''1'') \<and>
   to_number (JStr ''1'') = Some 1 \<and>
   js_add (JStr ''1'') (JNum 1) = JStr ''11'' \<and>
   fst (scan ''A'' (counting ''1'' (left_store (event_row ''100'') ''1'')))
     = Inr (reentry_record ''11'') \<and>
   queued (snd (scan ''A'' (counting ''1'' (left_store (event_row ''100'') ''1''))))
     = [Set ''current_attendees_count'' ''11'', Del ''lock:A''] \<and>
   settled (snd (scan ''A'' (counting ''1'' (left_store (event_row ''100'') ''1''))))
     ''current_attendees_count'' = Some (RString ''11'') \<and>
   to_number (JStr ''11'') = Some 11"
  by (simp add: site_defs ticket_defs js_defs cache_defs)

text \<open>
  C4, evaluated where the code departs from it. The capacity check compares the stored
  texts. With the counter at \<^verbatim>\<open>11\<close> and capacity 5 the attempt passes the check and
  ticket \<^verbatim>\<open>A\<close> re-enters, although 11 is at least 5; with the counter at \<^verbatim>\<open>11\<close> and
  capacity 1000 the attempt fails with \<open>EventFull\<close>, although 11 is below 1000.
\<close>

theorem capacity_check_compares_text:
  "server (counting ''11'' (left_store (event_row ''5'') ''1'')) ''current_event''
     = Some (event_row ''5'') \<and>
   server (counting ''11'' (left_store (event_row ''5'') ''1'')) ''current_attendees_count''
     = Some (RString ''11'') \<and>
   js_ge (JStr ''11'') (JStr ''5'') = False \<and>
   fst (scan ''A'' (counting ''11'' (left_store (event_row ''5'') ''1'')))
     = Inr (reentry_record ''11'') \<and>
   server (counting ''11'' (left_store (event_row ''1000'') ''1'')) ''current_event''
     = Some (event_row ''1000'') \<and>
   server (counting ''11'' (left_store (event_row ''1000'') ''1'')) ''current_attendees_count''
     = Some (RString ''11'') \<and>
   js_ge (JStr ''11'') (JStr ''1000'') = True \<and>
   fst (scan ''A'' (counting ''11'' (left_store (event_row ''1000'') ''1''))) = Inl EventFull \<and>
   to_number (JStr ''11'') = Some 11 \<and>
   to_number (JStr ''5'') = Some 5 \<and>
   to_number (JStr ''1000'') = Some 1000"
  by (simp add: site_defs ticket_defs js_defs cache_defs)

section \<open>Re-entry\<close>

text \<open>
  C5, evaluated where the code departs from it. Ticket \<^verbatim>\<open>A\<close> is valid and outside.
  With one entry so far and \<^verbatim>\<open>max_entries\<close> 2 it is admitted, and its entry count
  becomes the text \<^verbatim>\<open>11\<close>, returned and stored, not 2. With ten entries so far and
  \<^verbatim>\<open>max_entries\<close> 2 it is admitted as well, since \<^verbatim>\<open>"10" >= "2"\<close> is false for
  strings. With the event as \<^verbatim>\<open>setEvent\<close> writes it there is no \<^verbatim>\<open>max_entries\<close> at all,
  and the comparison with \<^verbatim>\<open>undefined\<close> is false whatever the entry count. With two
  entries so far and \<^verbatim>\<open>max_entries\<close> 2 the attempt is rejected.
\<close>

theorem reentry_appends_to_entry_count:
  "fst (scan ''A'' (left_store (event_row_entries ''100'' ''2'') ''1''))
     = Inr (reentry_record ''11'') \<and>
   server (snd (scan ''A'' (left_store (event_row_entries ''100'' ''2'') ''1''))) ''ticket:A''
     = Some (left_row ''in'' ''11'') \<and>
   settled (snd (scan ''A'' (left_store (event_row_entries ''100'' ''2'') ''1''))) ''ticket:A''
     = Some (left_row ''in'' ''11'') \<and>
   fst (scan ''A'' (left_store (event_row_entries ''100'' ''2'') ''10''))
     = Inr (reentry_record ''101'') \<and>
   server (opened 100) ''current_event'' = Some (event_row ''100'') \<and>
   fst (scan ''A'' (left_store (event_row ''100'') ''5'')) = Inr (reentry_record ''51'') \<and>
   fst (scan ''A'' (left_store (event_row_entries ''100'' ''2'') ''2''))
     = Inl MaxEntriesReached"
  by (simp add: site_defs ticket_defs js_defs cache_defs)

section \<open>Two attempts at once\<close>

text \<open>
  C9, evaluated where the code departs from it. Two attempts on ticket \<^verbatim>\<open>A\<close> start with
  no lock in the store. When both reads of the lock are issued before either write, both
  attempts proceed past the acquisition, each with its write sent, and the store then
  holds the lock. When the first attempt writes before the second reads, the second
  fails with \<open>ConcurrentProcessing\<close>.
\<close>

theorem both_attempts_acquire_the_lock:
  "server (opened 100) ''lock:A'' = None \<and>
   queued (opened 100) = [] \<and>
   run_two (JStr ''A'') [True, False, True, False] (Checking, Checking, opened 100)
     = (Proceeded, Proceeded,
        \<lparr> server = server (opened 100),
          queued = [Set ''lock:A'' ''A'', Set ''lock:A'' ''A''] \<rparr>) \<and>
   settled \<lparr> server = server (opened 100),
             queued = [Set ''lock:A'' ''A'', Set ''lock:A'' ''A''] \<rparr>
     = (server (opened 100))(''lock:A'' \<mapsto> RString ''A'') \<and>
   run_two (JStr ''A'') [True, True, False, False] (Checking, Checking, opened 100)
     = (Proceeded, Failed ConcurrentProcessing,
        \<lparr> server = (server (opened 100))(''lock:A'' \<mapsto> RString ''A''), queued = [] \<rparr>)"
  by (simp add: site_defs ticket_defs js_defs cache_defs)

section \<open>The queue worker\<close>

text \<open>The worker passes the whole payload as the token. An object is not a string, so
  the token is refused whatever the payload holds; only a failure of the read of the
  current event comes first.\<close>

lemma process_never_admits:
  "fst (process env \<lparr> job_id = i, job_data = JObj payload \<rparr> w) =
     (case settled w ''current_event'' of
        Some (RString v) \<Rightarrow> Inl StoreFault
      | _ \<Rightarrow> Inl InvalidToken)"
  by (simp add: process_def verifyTicket_def verifyToken_def cache_hGetAll_def falsy_def
      split: option.split rval.split)

text \<open>
  C10, evaluated where the code departs from it. Ticket \<^verbatim>\<open>A\<close> is valid and outside after
  one entry. The job carries the token, device key and scan time of a scan that
  \<^verbatim>\<open>verifyTicket\<close> admits when called with these three values; the worker's processing
  of the job throws \<open>InvalidToken\<close>.
\<close>

theorem worker_decision_differs:
  "fst (verifyTicket site_env
          (get_field (job_data scan_job) ''token'')
          (get_field (job_data scan_job) ''deviceKey'')
          (get_field (job_data scan_job) ''scanTime'')
          (left_store (event_row_entries ''100'' ''2'') ''1''))
     = Inr (reentry_record ''11'') \<and>
   fst (process site_env scan_job (left_store (event_row_entries ''100'' ''2'') ''1''))
     = Inl InvalidToken"
  by (simp add: site_defs ticket_defs js_defs cache_defs)

end
